theory Spec2Isabelle
  imports Main
begin

section \<open>The QuickBooks mock / capture / proxy server (mcp-server.ts)\<close>

text \<open>
  The server is one file, \<^verbatim>\<open>mcp-server.ts\<close>.  It reads its configuration from the process
  environment, registers four handlers with an OpenAPI backend, and mounts up to two
  middlewares under the prefix \<^verbatim>\<open>/api\<close>: a proxy middleware (modes \<^verbatim>\<open>proxy\<close> and
  \<^verbatim>\<open>capture\<close>) and a middleware that hands the request to the OpenAPI backend (modes
  \<^verbatim>\<open>mock\<close> and \<^verbatim>\<open>capture\<close>).

  (The repository also holds an earlier variant of the same file, \<^verbatim>\<open>mcp-server.js\<close>, whose
  capture callback only records and leaves the relay to the proxy middleware; the
  embedding follows \<^verbatim>\<open>mcp-server.ts\<close>.)

  The embedding keeps the code's own functions: the handlers given to \<^verbatim>\<open>api.register\<close>,
  \<^verbatim>\<open>captureExchange\<close>, the callbacks of \<^verbatim>\<open>proxyOptions\<close> and the registration done by
  \<^verbatim>\<open>startServer\<close>.  What a handler does to the outside world (the caller's response, the
  capture file, the console) is a list of events in the order the code issues them, and
  a handler either returns or throws.  Express, http-proxy-middleware, openapi-backend
  and Node are not part of the repository.  What they supply to the code (the operation
  the backend matched, the errors the validator reports, what the upstream sent, whether
  the file system accepts a write) enters the model as an argument; what they do with the
  code's own registrations and calls (the order in which express runs middlewares and
  the URL it hands them, the handler the backend calls for a request, the header values
  \<^verbatim>\<open>setHeader\<close> accepts) is written out next to the definition that relies on it.
\<close>

subsection \<open>JavaScript strings\<close>

text \<open>
  A string is the list of the bytes of its UTF-8 encoding.

  JavaScript's \<^verbatim>\<open>toLowerCase\<close> covers all of Unicode.  The model lower-cases the ASCII
  letters and maps the Kelvin sign (U+212A, the bytes \<open>E2 84 AA\<close>) to \<open>k\<close>: these are the
  only characters whose lower case is an ASCII letter.  Every other character is kept,
  where JavaScript may put another non-ASCII character; so the model and JavaScript
  agree whenever either result is an ASCII string, which is what a comparison with
  \<^verbatim>\<open>"mock"\<close>, \<^verbatim>\<open>"proxy"\<close> or \<^verbatim>\<open>"capture"\<close> reads.
\<close>

definition toLowerChar :: "char \<Rightarrow> char" where
  "toLowerChar c =
     (case map_of (zip ''ABCDEFGHIJKLMNOPQRSTUVWXYZ'' ''abcdefghijklmnopqrstuvwxyz'') c of
        None \<Rightarrow> c
      | Some l \<Rightarrow> l)"

fun toLowerCase :: "string \<Rightarrow> string" where
  "toLowerCase (a # b # c # s) =
     (if a = CHR 0xE2 \<and> b = CHR 0x84 \<and> c = CHR 0xAA then CHR ''k'' # toLowerCase s
      else toLowerChar a # toLowerCase (b # c # s))"
| "toLowerCase (a # s) = toLowerChar a # toLowerCase s"
| "toLowerCase [] = []"

text \<open>\<^verbatim>\<open>s.startsWith(p)\<close> and \<^verbatim>\<open>s.includes(p)\<close>.\<close>

fun startsWith :: "string \<Rightarrow> string \<Rightarrow> bool" where
  "startsWith s [] = True"
| "startsWith [] (p # ps) = False"
| "startsWith (c # cs) (p # ps) = (c = p \<and> startsWith cs ps)"

fun str_includes :: "string \<Rightarrow> string \<Rightarrow> bool" where
  "str_includes [] p = (p = [])"
| "str_includes (c # cs) p = (startsWith (c # cs) p \<or> str_includes cs p)"

subsection \<open>JSON values and \<^verbatim>\<open>JSON.stringify\<close>\<close>

text \<open>
  The values the server serialises: the error objects of the handlers, the validator's
  error list, the mock bodies and the exchange record.  An object is its list of
  properties in insertion order.  \<open>JNum n\<close> is an integer of absolute value below
  \<^verbatim>\<open>1e21\<close>, which \<^verbatim>\<open>JSON.stringify\<close> prints with all its digits (the status codes are such
  numbers); larger numbers, printed in exponent form, and numbers with a fraction are
  outside the model.
\<close>

datatype json =
    JNull
  | JBool bool
  | JNum int
  | JStr string
  | JArr "json list"
  | JObj "(string \<times> json) list"

definition hex_digit :: "nat \<Rightarrow> char" where
  "hex_digit n = ''0123456789abcdef'' ! (n mod 16)"

text \<open>
  The escapes of \<^verbatim>\<open>JSON.stringify\<close>: the two-character escapes for backspace, tab, line
  feed, form feed, carriage return, the double quote and the backslash, \<^verbatim>\<open>\u00XX\<close> for
  every other control character, and the character itself otherwise.
\<close>

definition QuoteJSONChar :: "char \<Rightarrow> string" where
  "QuoteJSONChar c =
     (if c = CHR 0x08 then [CHR 0x5C, CHR ''b'']
      else if c = CHR 0x09 then [CHR 0x5C, CHR ''t'']
      else if c = CHR 0x0A then [CHR 0x5C, CHR ''n'']
      else if c = CHR 0x0C then [CHR 0x5C, CHR ''f'']
      else if c = CHR 0x0D then [CHR 0x5C, CHR ''r'']
      else if c = CHR 0x22 then [CHR 0x5C, CHR 0x22]
      else if c = CHR 0x5C then [CHR 0x5C, CHR 0x5C]
      else if (of_char c :: nat) < 0x20
        then [CHR 0x5C, CHR ''u'', CHR ''0'', CHR ''0'',
              hex_digit (of_char c div 16), hex_digit (of_char c)]
      else [c])"

definition QuoteJSONString :: "string \<Rightarrow> string" where
  "QuoteJSONString s = [CHR 0x22] @ concat (map QuoteJSONChar s) @ [CHR 0x22]"

fun digits :: "nat \<Rightarrow> string" where
  "digits n = (if n < 10 then [hex_digit n] else digits (n div 10) @ [hex_digit (n mod 10)])"

declare digits.simps [simp del]

definition NumberToString :: "int \<Rightarrow> string" where
  "NumberToString i = (if i < 0 then CHR ''-'' # digits (nat (- i)) else digits (nat i))"

fun join :: "string \<Rightarrow> string list \<Rightarrow> string" where
  "join sep [] = []"
| "join sep [x] = x"
| "join sep (x # y # ys) = x @ sep @ join sep (y # ys)"

fun JSON_stringify :: "json \<Rightarrow> string" where
  "JSON_stringify JNull = ''null''"
| "JSON_stringify (JBool b) = (if b then ''true'' else ''false'')"
| "JSON_stringify (JNum n) = NumberToString n"
| "JSON_stringify (JStr s) = QuoteJSONString s"
| "JSON_stringify (JArr xs) = ''['' @ join '','' (map JSON_stringify xs) @ '']''"
| "JSON_stringify (JObj kvs) =
     ''{'' @ join '','' (map (\<lambda>(k, v). QuoteJSONString k @ '':'' @ JSON_stringify v) kvs) @ ''}''"


subsection \<open>Environment\<close>

text \<open>
  \<^verbatim>\<open>const MODE = (process.env.MCP_MODE || "mock").toLowerCase();\<close>
  The argument is the environment variable: \<open>None\<close> when it is not set.  The empty
  string is falsy, so it takes the default as well.
\<close>

definition MODE :: "string option \<Rightarrow> string" where
  "MODE MCP_MODE =
     toLowerCase (case MCP_MODE of
                    None \<Rightarrow> ''mock''
                  | Some s \<Rightarrow> if s = [] then ''mock'' else s)"

subsection \<open>Registration of the middlewares under \<^verbatim>\<open>/api\<close>\<close>

text \<open>
  \<^verbatim>\<open>startServer\<close> mounts, in this order,
  \<^verbatim>\<open>if (MODE === "proxy" || MODE === "capture") app.use("/api", createProxyMiddleware(proxyOptions));\<close>
  \<^verbatim>\<open>if (MODE === "mock" || MODE === "capture") app.use("/api", (req, res, next) => { api.handleRequest(req, req, res); });\<close>
\<close>

datatype middleware = ProxyMiddleware | MockMiddleware

definition app_use_api :: "string \<Rightarrow> middleware list" where
  "app_use_api mode =
     (if mode = ''proxy'' \<or> mode = ''capture'' then [ProxyMiddleware] else []) @
     (if mode = ''mock'' \<or> mode = ''capture'' then [MockMiddleware] else [])"

text \<open>
  Express runs the middlewares mounted on a path in the order of their registration; the
  next one runs only when the current one calls \<^verbatim>\<open>next()\<close>.  The mock middleware never
  calls \<^verbatim>\<open>next\<close> (its body is the single call of \<^verbatim>\<open>api.handleRequest\<close>).  The proxy
  middleware is created without a path filter, so it forwards every request it is given
  and does not call \<^verbatim>\<open>next\<close> either.
\<close>

fun calls_next :: "middleware \<Rightarrow> bool" where
  "calls_next ProxyMiddleware = False"
| "calls_next MockMiddleware = False"

fun invoked :: "middleware list \<Rightarrow> middleware list" where
  "invoked [] = []"
| "invoked (m # ms) = m # (if calls_next m then invoked ms else [])"

subsection \<open>Requests, effects and the platform\<close>

text \<open>
  The inbound request as the handlers read it: \<^verbatim>\<open>req.method\<close>, \<^verbatim>\<open>req.originalUrl\<close>,
  \<^verbatim>\<open>req.headers\<close> and \<^verbatim>\<open>req.body\<close> (\<open>None\<close> when the body parser left it
  \<^verbatim>\<open>undefined\<close>).
\<close>

record request =
  req_method :: string
  originalUrl :: string
  headers :: "(string \<times> string) list"
  body :: "json option"

text \<open>
  The upstream response handed to \<^verbatim>\<open>proxyRes\<close>: \<^verbatim>\<open>proxyRes.statusCode\<close> (typed
  \<^verbatim>\<open>number | undefined\<close>), \<^verbatim>\<open>proxyRes.headers\<close>, and the chunks its \<^verbatim>\<open>data\<close> events
  deliver before \<^verbatim>\<open>end\<close>.
\<close>

record incoming_message =
  statusCode :: "nat option"
  proxy_headers :: "(string \<times> string) list"
  chunks :: "string list"

text \<open>
  What the code does to the outside world, one event per call, in the order of the
  calls: \<^verbatim>\<open>fs.appendFileSync(path, data)\<close> that returned, \<^verbatim>\<open>res.writeHead(status, headers)\<close>,
  \<^verbatim>\<open>res.end(body)\<close>, \<^verbatim>\<open>proxyRes.pipe(res)\<close> (with the chunks that then flow to the
  caller), \<^verbatim>\<open>res.status(status).json(value)\<close> and \<^verbatim>\<open>console.error(...)\<close>.
\<close>

datatype event =
    AppendFile string string
  | WriteHead nat "(string \<times> string) list"
  | End string
  | Pipe "string list"
  | SendJson nat json
  | ConsoleError "string list"

datatype outcome = Returned | Threw

text \<open>
  What the platform supplies while a handler runs: the clock (\<^verbatim>\<open>new Date().toISOString()\<close>),
  whether the file system accepts an append (\<^verbatim>\<open>appendFileSync\<close> throws otherwise), and
  the decoding \<^verbatim>\<open>Buffer.toString("utf8")\<close> of received bytes into a string.
\<close>

record platform =
  now :: string
  writable :: bool
  toString_utf8 :: "string \<Rightarrow> string"

definition appendFileSync :: "platform \<Rightarrow> string \<Rightarrow> string \<Rightarrow> event list \<times> outcome" where
  "appendFileSync p path data =
     (if writable p then ([AppendFile path data], Returned) else ([], Threw))"

text \<open>\<^verbatim>\<open>x || d\<close> on a \<^verbatim>\<open>number | undefined\<close>: \<^verbatim>\<open>undefined\<close> and \<open>0\<close> are falsy.\<close>

definition truthy :: "nat option \<Rightarrow> bool" where
  "truthy x = (case x of None \<Rightarrow> False | Some n \<Rightarrow> n \<noteq> 0)"

definition or_else :: "nat option \<Rightarrow> nat \<Rightarrow> nat" where
  "or_else x d = (case x of None \<Rightarrow> d | Some n \<Rightarrow> if n = 0 then d else n)"

subsection \<open>The capture helper\<close>

text \<open>
  \<^verbatim>\<open>JSON.stringify({ ts, req: { method, url: req.originalUrl, headers, body }, res: { status, body: resBody } })\<close>;
  a property whose value is \<^verbatim>\<open>undefined\<close> is left out by \<^verbatim>\<open>JSON.stringify\<close>.
\<close>

definition exchange :: "string \<Rightarrow> request \<Rightarrow> string \<Rightarrow> nat \<Rightarrow> json" where
  "exchange ts req resBody status =
     JObj [(''ts'', JStr ts),
           (''req'', JObj ([(''method'', JStr (req_method req)),
                            (''url'', JStr (originalUrl req)),
                            (''headers'', JObj (map (\<lambda>(k, v). (k, JStr v)) (headers req)))] @
                           (case body req of None \<Rightarrow> [] | Some b \<Rightarrow> [(''body'', b)]))),
           (''res'', JObj [(''status'', JNum (int status)), (''body'', JStr resBody)])]"

definition captureExchange ::
    "platform \<Rightarrow> request \<Rightarrow> string \<Rightarrow> nat \<Rightarrow> event list \<times> outcome" where
  "captureExchange p req resBody status =
     (let line = JSON_stringify (exchange (now p) req resBody status)
      in appendFileSync p ''captures.ndjson'' (line @ [CHR 0x0A]))"

subsection \<open>The proxy options\<close>





text \<open>
  The headers of the outgoing request, by lower-cased name: \<^verbatim>\<open>setHeader\<close> replaces the
  value stored under a name whatever its case.  Node refuses a header value with a
  character other than tab, \<open>U+0020\<close> to \<open>U+007E\<close> and \<open>U+0080\<close> to \<open>U+00FF\<close>:
  \<^verbatim>\<open>setHeader\<close> then throws and the headers stay as they were.  In UTF-8 the characters
  \<open>U+0080\<close> to \<open>U+00FF\<close> are the two-byte sequences led by \<open>C2\<close> or \<open>C3\<close>, and every
  character above \<open>U+00FF\<close> has a lead byte from \<open>C4\<close> on; so a value is accepted when
  each of its bytes is tab, \<open>20\<close> to \<open>7E\<close>, or \<open>80\<close> to \<open>C3\<close>.
\<close>

type_synonym client_request = "string \<rightharpoonup> string"

definition valid_header_char :: "char \<Rightarrow> bool" where
  "valid_header_char c =
     ((of_char c :: nat) = 0x09 \<or>
      (0x20 \<le> (of_char c :: nat) \<and> (of_char c :: nat) \<le> 0x7E) \<or>
      (0x80 \<le> (of_char c :: nat) \<and> (of_char c :: nat) \<le> 0xC3))"

definition setHeader ::
    "string \<Rightarrow> string \<Rightarrow> client_request \<Rightarrow> client_request \<times> outcome" where
  "setHeader name v proxyReq =
     (if list_all valid_header_char v
      then (proxyReq(toLowerCase name \<mapsto> v), Returned)
      else (proxyReq, Threw))"

definition getHeader :: "client_request \<Rightarrow> string \<Rightarrow> string option" where
  "getHeader proxyReq name = proxyReq (toLowerCase name)"

text \<open>
  \<^verbatim>\<open>proxyReq: (proxyReq, req, res) => { if (QBO_TOKEN) proxyReq.setHeader("Authorization", `Bearer ${QBO_TOKEN}`); }\<close>
  \<open>QBO_TOKEN\<close> is the environment variable; unset and empty are falsy.  The callback does
  not catch what \<^verbatim>\<open>setHeader\<close> throws.
\<close>

definition on_proxyReq ::
    "string option \<Rightarrow> client_request \<Rightarrow> client_request \<times> outcome" where
  "on_proxyReq QBO_TOKEN proxyReq =
     (case QBO_TOKEN of
        None \<Rightarrow> (proxyReq, Returned)
      | Some t \<Rightarrow> if t = [] then (proxyReq, Returned)
                  else setHeader ''Authorization'' (''Bearer '' @ t) proxyReq)"

text \<open>
  The \<^verbatim>\<open>proxyRes\<close> callback.  In the capture branch the body of the callback runs when the
  upstream response has ended: the chunks are joined and decoded, the exchange is
  captured, and then, unless the caller's response is closed, status, headers and body
  are written.  \<open>closed\<close> is \<^verbatim>\<open>res.closed\<close> at the moment the code reads it.  An exception
  of \<^verbatim>\<open>captureExchange\<close> is not caught, so it ends the callback.  The callback is the
  first code to write to the caller's response (the proxy middleware writes after it, or
  not at all in capture mode), so its \<^verbatim>\<open>res.writeHead\<close> finds no head sent.
\<close>

definition on_proxyRes ::
    "string \<Rightarrow> platform \<Rightarrow> incoming_message \<Rightarrow> request \<Rightarrow> bool \<Rightarrow> event list \<times> outcome" where
  "on_proxyRes mode p proxyRes req closed =
     (if mode = ''capture'' \<and> truthy (statusCode proxyRes) then
        (let body = toString_utf8 p (concat (chunks proxyRes))
         in case captureExchange p req body (or_else (statusCode proxyRes) 0) of
              (evs, Threw) \<Rightarrow> (evs, Threw)
            | (evs, Returned) \<Rightarrow>
                if \<not> closed
                then (evs @ [WriteHead (or_else (statusCode proxyRes) 500) (proxy_headers proxyRes),
                             End body], Returned)
                else (evs, Returned))
      else if \<not> closed
        then ([WriteHead (or_else (statusCode proxyRes) 500) (proxy_headers proxyRes),
               Pipe (chunks proxyRes)], Returned)
      else ([], Returned))"

text \<open>
  The \<^verbatim>\<open>error\<close> callback.  Its \<^verbatim>\<open>res\<close> is an \<^verbatim>\<open>http.ServerResponse\<close>, with its flags
  \<^verbatim>\<open>closed\<close> and \<^verbatim>\<open>headersSent\<close> (in this order), or a \<^verbatim>\<open>net.Socket\<close>.  The callback can run
  after \<^verbatim>\<open>proxyRes\<close> has written the head (a failure in the middle of a response): then
  \<^verbatim>\<open>res.writeHead\<close> throws, and nothing catches it.
\<close>

datatype response_target = ServerResponse bool bool | Socket

definition writeHead ::
    "bool \<Rightarrow> nat \<Rightarrow> (string \<times> string) list \<Rightarrow> event list \<times> outcome" where
  "writeHead headersSent status hs =
     (if headersSent then ([], Threw) else ([WriteHead status hs], Returned))"

definition on_error :: "string \<Rightarrow> response_target \<Rightarrow> string \<Rightarrow> event list \<times> outcome" where
  "on_error err_message res target =
     (let logged = [ConsoleError [''Proxy error:'', err_message, ''Target:'', target]]
      in case res of
           ServerResponse closed headersSent \<Rightarrow>
             if \<not> closed
             then (case writeHead headersSent 500 [(''Content-Type'', ''application/json'')] of
                     (evs, Threw) \<Rightarrow> (logged @ evs, Threw)
                   | (evs, Returned) \<Rightarrow>
                       (logged @ evs @
                        [End (JSON_stringify (JObj [(''error'', JStr ''Proxy error''),
                                                    (''details'', JStr err_message)]))],
                        Returned))
             else (logged, Returned)
         | Socket \<Rightarrow>
             (logged @ [ConsoleError [''Proxy error handler could not forward error.'']],
              Returned))"

subsection \<open>The handlers registered with the OpenAPI backend\<close>

text \<open>
  The context the backend passes to a handler: \<^verbatim>\<open>c.operation.operationId\<close> and
  \<^verbatim>\<open>c.validation.errors\<close>.  The backend gives either a non-empty array of errors or
  \<^verbatim>\<open>null\<close>; the empty list stands for \<^verbatim>\<open>null\<close>.
\<close>

record handler_context =
  operationId :: "string option"
  validation_errors :: "json list"

text \<open>
  The object \<^verbatim>\<open>api.mockResponseForOperation\<close> returns: a field is \<open>None\<close> when the key is
  not in the object.
\<close>

record mock_response =
  mock_status :: "nat option"
  mock_body :: "json option"

definition notImplemented :: "handler_context \<Rightarrow> request \<Rightarrow> event list" where
  "notImplemented c req = [SendJson 501 (JObj [(''error'', JStr ''Not implemented in MCP mock'')])]"

definition notFound :: "handler_context \<Rightarrow> request \<Rightarrow> event list" where
  "notFound c req = [SendJson 404 (JObj [(''error'', JStr ''Path not found in specification'')])]"

definition validationFail :: "handler_context \<Rightarrow> request \<Rightarrow> event list" where
  "validationFail c req =
     [SendJson 400 (JObj [(''errors'', (if validation_errors c = [] then JNull
                                        else JArr (validation_errors c)))])]"

text \<open>
  The \<^verbatim>\<open>mock\<close> handler.  \<open>mockResponseForOperation\<close> is the backend's lookup for the loaded
  contract; \<open>None\<close> is a falsy result.
\<close>

definition mock ::
    "(string \<Rightarrow> mock_response option) \<Rightarrow> handler_context \<Rightarrow> request \<Rightarrow> event list" where
  "mock mockResponseForOperation c req =
     (let mockResponse =
            mockResponseForOperation (case operationId c of None \<Rightarrow> [] | Some i \<Rightarrow> i);
          status = (case mockResponse of
                      None \<Rightarrow> 200
                    | Some r \<Rightarrow> (case mock_status r of None \<Rightarrow> 200 | Some s \<Rightarrow> s));
          body = (case mockResponse of
                    None \<Rightarrow> JObj [(''error'', JStr ''Mock body not found'')]
                  | Some r \<Rightarrow> (case mock_body r of
                                None \<Rightarrow> JObj [(''error'', JStr ''Mock body not found'')]
                              | Some b \<Rightarrow> b))
      in [SendJson status body])"

text \<open>
  \<^verbatim>\<open>api.handleRequest\<close> calls one of the registered handlers.  Which one, and with which
  context, is the backend's decision for the request (\<open>select\<close>).
\<close>

datatype handler_name = H_notImplemented | H_notFound | H_validationFail | H_mock

definition handleRequest ::
    "(string \<Rightarrow> mock_response option) \<Rightarrow> (request \<Rightarrow> handler_name \<times> handler_context) \<Rightarrow>
     request \<Rightarrow> event list" where
  "handleRequest mockResponseForOperation select req =
     (case select req of
        (H_notImplemented, c) \<Rightarrow> notImplemented c req
      | (H_notFound, c) \<Rightarrow> notFound c req
      | (H_validationFail, c) \<Rightarrow> validationFail c req
      | (H_mock, c) \<Rightarrow> mock mockResponseForOperation c req)"

text \<open>
  How openapi-backend picks the handler.  The object given to \<^verbatim>\<open>api.register\<close> has the
  four keys below.  For a request, the backend finds either no operation of the contract
  or one operation, with its \<^verbatim>\<open>operationId\<close> (if it has one) and the validator's errors
  (none for a valid request).  It calls the handler registered as \<^verbatim>\<open>notFound\<close> when no
  operation matches, the one registered as \<^verbatim>\<open>validationFail\<close> when the validator reports
  errors, and otherwise the handler registered under the operation's own \<^verbatim>\<open>operationId\<close>,
  or, when there is none, the one registered as \<^verbatim>\<open>notImplemented\<close>.  The backend gives
  the key \<^verbatim>\<open>mock\<close> no meaning of its own: the handler registered as \<^verbatim>\<open>mock\<close> is the
  operation handler of an operation whose \<^verbatim>\<open>operationId\<close> is \<^verbatim>\<open>mock\<close>.
\<close>

definition registered :: "string \<Rightarrow> handler_name option" where
  "registered key =
     (if key = ''notImplemented'' then Some H_notImplemented
      else if key = ''notFound'' then Some H_notFound
      else if key = ''validationFail'' then Some H_validationFail
      else if key = ''mock'' then Some H_mock
      else None)"

datatype finding = NoOperation | Operation "string option" "json list"

definition backend_select ::
    "(request \<Rightarrow> finding) \<Rightarrow> request \<Rightarrow> handler_name \<times> handler_context" where
  "backend_select found req =
     (case found req of
        NoOperation \<Rightarrow> (H_notFound, \<lparr>operationId = None, validation_errors = []\<rparr>)
      | Operation i errs \<Rightarrow>
          if errs \<noteq> [] then (H_validationFail, \<lparr>operationId = i, validation_errors = errs\<rparr>)
          else ((case i of
                   None \<Rightarrow> H_notImplemented
                 | Some k \<Rightarrow> (case registered k of
                               None \<Rightarrow> H_notImplemented
                             | Some h \<Rightarrow> h)),
                \<lparr>operationId = i, validation_errors = []\<rparr>))"





subsection \<open>Reading a list of events\<close>

text \<open>
  What reached the capture file; the status and the body bytes given to the caller
  (\<^verbatim>\<open>res.json(v)\<close> sends \<^verbatim>\<open>JSON.stringify(v)\<close>); and which events write to the caller's
  response at all.
\<close>

fun status_sent :: "event list \<Rightarrow> nat option" where
  "status_sent [] = None"
| "status_sent (WriteHead s h # es) = Some s"
| "status_sent (SendJson s v # es) = Some s"
| "status_sent (e # es) = status_sent es"

fun body_sent :: "event list \<Rightarrow> string" where
  "body_sent [] = []"
| "body_sent (End b # es) = b @ body_sent es"
| "body_sent (Pipe cs # es) = concat cs @ body_sent es"
| "body_sent (SendJson s v # es) = JSON_stringify v @ body_sent es"
| "body_sent (e # es) = body_sent es"

fun appended :: "event list \<Rightarrow> string list" where
  "appended [] = []"
| "appended (AppendFile path data # es) =
     (if path = ''captures.ndjson'' then data # appended es else appended es)"
| "appended (e # es) = appended es"


fun writes_response :: "event \<Rightarrow> bool" where
  "writes_response (WriteHead s h) = True"
| "writes_response (End b) = True"
| "writes_response (Pipe cs) = True"
| "writes_response (SendJson s v) = True"
| "writes_response e = False"


section \<open>Properties\<close>

subsection \<open>A serialised value is a single line\<close>








subsection \<open>The capture helper and the capture branch, case by case\<close>


lemma captureExchange_not_writable:
  "\<not> writable p \<Longrightarrow> captureExchange p req b s = ([], Threw)"
  by (simp add: captureExchange_def appendFileSync_def)


lemma on_proxyRes_capture_not_writable:
  "truthy (statusCode proxyRes) \<Longrightarrow> \<not> writable p \<Longrightarrow>
   on_proxyRes ''capture'' p proxyRes req closed = ([], Threw)"
  by (simp add: on_proxyRes_def captureExchange_not_writable)


subsection \<open>Capture mode\<close>






text \<open>
  C4 (as amended).  In capture mode, if appending the exchange record to the capture log
  fails, the exception leaves the \<^verbatim>\<open>proxyRes\<close> callback before anything is written to the
  caller's response: no status, headers or body of that exchange is written by the
  callback, and the callback logs nothing.
\<close>

theorem capture_write_failure_propagates:
  "truthy (statusCode proxyRes) \<Longrightarrow> \<not> writable p \<Longrightarrow>
   on_proxyRes ''capture'' p proxyRes req closed = ([], Threw)"
  by (rule on_proxyRes_capture_not_writable)

theorem capture_write_failure_propagates_witness:
  "truthy (statusCode \<lparr>statusCode = Some 200, proxy_headers = [], chunks = [''ok'']\<rparr>) \<and>
   \<not> writable \<lparr>now = ''2025-04-22T19:34:12.345Z'', writable = False, toString_utf8 = id\<rparr> \<and>
   on_proxyRes ''capture''
     \<lparr>now = ''2025-04-22T19:34:12.345Z'', writable = False, toString_utf8 = id\<rparr>
     \<lparr>statusCode = Some 200, proxy_headers = [], chunks = [''ok'']\<rparr>
     \<lparr>req_method = ''GET'', originalUrl = ''/api/v3/company/42/customer'', headers = [],
      body = None\<rparr> False = ([], Threw)"
  using capture_write_failure_propagates
    [of "\<lparr>statusCode = Some 200, proxy_headers = [], chunks = [''ok'']\<rparr>"
        "\<lparr>now = ''2025-04-22T19:34:12.345Z'', writable = False, toString_utf8 = id\<rparr>"
        "\<lparr>req_method = ''GET'', originalUrl = ''/api/v3/company/42/customer'', headers = [],
          body = None\<rparr>" False]
  by (simp add: truthy_def)

text \<open>
  C4 as stated fails.  With a file system that refuses the append, the callback throws
  and the response of the exchange (status 200, body \<^verbatim>\<open>ok\<close>) is not written to the open
  caller's response.
\<close>

theorem capture_write_failure_drops_response:
  "snd (on_proxyRes ''capture''
     \<lparr>now = ''2025-04-22T19:34:12.345Z'', writable = False, toString_utf8 = id\<rparr>
     \<lparr>statusCode = Some 200, proxy_headers = [], chunks = [''ok'']\<rparr>
     \<lparr>req_method = ''GET'', originalUrl = ''/api/v3/company/42/customer'', headers = [],
      body = None\<rparr> False) = Threw \<and>
   filter writes_response (fst (on_proxyRes ''capture''
     \<lparr>now = ''2025-04-22T19:34:12.345Z'', writable = False, toString_utf8 = id\<rparr>
     \<lparr>statusCode = Some 200, proxy_headers = [], chunks = [''ok'']\<rparr>
     \<lparr>req_method = ''GET'', originalUrl = ''/api/v3/company/42/customer'', headers = [],
      body = None\<rparr> False)) = []"
  by (simp add: on_proxyRes_def truthy_def captureExchange_def appendFileSync_def)

subsection \<open>Mode dispatch\<close>

lemma never_calls_next: "\<not> calls_next m"
  by (cases m) simp_all

lemma invoked_first: "invoked ms = take 1 ms"
  by (cases ms) (simp_all add: never_calls_next)

text \<open>
  C2.  In each of the three modes exactly one of the two middlewares handles a request
  under \<^verbatim>\<open>/api\<close>: the mock middleware (the response synthesizer) in mode \<^verbatim>\<open>mock\<close>, the
  proxy middleware (the upstream forwarder) in modes \<^verbatim>\<open>proxy\<close> and \<^verbatim>\<open>capture\<close>.  In
  capture mode both are mounted, and the forwarder, mounted first, is the only one that
  runs.  For no mode value at all do both handle the same request.
\<close>

theorem exactly_one_handler:
  "invoked (app_use_api ''mock'') = [MockMiddleware] \<and>
   invoked (app_use_api ''proxy'') = [ProxyMiddleware] \<and>
   invoked (app_use_api ''capture'') = [ProxyMiddleware] \<and>
   (mode \<in> {''mock'', ''proxy'', ''capture''} \<longrightarrow> length (invoked (app_use_api mode)) = 1) \<and>
   \<not> (ProxyMiddleware \<in> set (invoked (app_use_api mode)) \<and>
      MockMiddleware \<in> set (invoked (app_use_api mode)))"
proof -
  have mock_mode: "invoked (app_use_api ''mock'') = [MockMiddleware]"
    by (simp add: app_use_api_def)
  have proxy_mode: "invoked (app_use_api ''proxy'') = [ProxyMiddleware]"
    by (simp add: app_use_api_def)
  have capture_mode: "invoked (app_use_api ''capture'') = [ProxyMiddleware]"
    by (simp add: app_use_api_def)
  have one: "mode \<in> {''mock'', ''proxy'', ''capture''} \<longrightarrow> length (invoked (app_use_api mode)) = 1"
    using mock_mode proxy_mode capture_mode by auto
  have "length (invoked (app_use_api mode)) \<le> 1"
    by (simp add: invoked_first)
  then have never_both:
    "\<not> (ProxyMiddleware \<in> set (invoked (app_use_api mode)) \<and>
        MockMiddleware \<in> set (invoked (app_use_api mode)))"
    by (cases "invoked (app_use_api mode)") auto
  from mock_mode proxy_mode capture_mode one never_both show ?thesis
    by blast
qed

theorem exactly_one_handler_witness:
  "MODE (Some ''CAPTURE'') \<in> {''mock'', ''proxy'', ''capture''} \<and>
   length (invoked (app_use_api (MODE (Some ''CAPTURE'')))) = 1 \<and>
   invoked (app_use_api (MODE (Some ''CAPTURE''))) = [ProxyMiddleware]"
proof -
  have m: "MODE (Some ''CAPTURE'') = ''capture''"
    by (simp add: MODE_def toLowerChar_def)
  from exactly_one_handler [of "MODE (Some ''CAPTURE'')"] show ?thesis
    by (simp add: m)
qed

lemma MODE_staging: "MODE (Some ''Staging'') = ''staging''"
  by (simp add: MODE_def toLowerChar_def)

lemma MODE_Kelvin_sign: "MODE (Some (''MOC'' @ [CHR 0xE2, CHR 0x84, CHR 0xAA])) = ''mock''"
  by (simp add: MODE_def toLowerChar_def)

text \<open>
  C3 (as amended).  When the mode variable is unset or empty, the mode is \<^verbatim>\<open>mock\<close>.  For
  every other mode value that is not one of \<^verbatim>\<open>mock\<close>, \<^verbatim>\<open>proxy\<close>, \<^verbatim>\<open>capture\<close> (after
  lower-casing), no middleware is mounted under \<^verbatim>\<open>/api\<close>: requests under \<^verbatim>\<open>/api\<close> are
  neither validated against the contract and answered with synthesized responses, nor
  forwarded.
\<close>

theorem unrecognized_mode_mounts_nothing:
  "MODE None = ''mock'' \<and> MODE (Some []) = ''mock'' \<and>
   (mode \<notin> {''mock'', ''proxy'', ''capture''} \<longrightarrow>
      app_use_api mode = [] \<and> invoked (app_use_api mode) = [])"
  by (simp add: MODE_def toLowerChar_def app_use_api_def)

theorem unrecognized_mode_mounts_nothing_witness:
  "MODE (Some ''Staging'') \<notin> {''mock'', ''proxy'', ''capture''} \<and>
   app_use_api (MODE (Some ''Staging'')) = [] \<and>
   invoked (app_use_api (MODE (Some ''Staging''))) = []"
  using unrecognized_mode_mounts_nothing [of "MODE (Some ''Staging'')"]
  by (simp add: MODE_staging)

text \<open>
  C3 as stated fails.  With \<^verbatim>\<open>MCP_MODE=Staging\<close> no middleware handles a request under
  \<^verbatim>\<open>/api\<close>, whereas in mock mode the mock middleware does.
\<close>

theorem unrecognized_mode_is_not_mock:
  "invoked (app_use_api (MODE (Some ''Staging''))) = [] \<and>
   invoked (app_use_api (MODE (Some ''mock''))) = [MockMiddleware]"
  by (simp add: MODE_def toLowerChar_def app_use_api_def)

subsection \<open>Forwarding\<close>




lemma on_error_closed:
  "on_error msg (ServerResponse True headersSent) target =
     ([ConsoleError [''Proxy error:'', msg, ''Target:'', target]], Returned)"
  by (simp add: on_error_def)

lemma on_error_head_sent:
  "on_error msg (ServerResponse False True) target =
     ([ConsoleError [''Proxy error:'', msg, ''Target:'', target]], Threw)"
  by (simp add: on_error_def writeHead_def)







subsection \<open>Mock mode\<close>

lemma select_notFound:
  "found req = NoOperation \<Longrightarrow>
   backend_select found req = (H_notFound, \<lparr>operationId = None, validation_errors = []\<rparr>)"
  by (simp add: backend_select_def)

text \<open>
  C7 (as amended).  For every request for which the backend selects the \<^verbatim>\<open>notFound\<close>
  handler (its path matches no operation of the contract), the response has status 404
  and the fixed JSON body \<^verbatim>\<open>{"error":"Path not found in specification"}\<close>; the body is
  the same for every path.
\<close>

theorem not_found_fixed_message:
  "select req = (H_notFound, c) \<Longrightarrow>
   handleRequest mockResponseForOperation select req =
     [SendJson 404 (JObj [(''error'', JStr ''Path not found in specification'')])] \<and>
   status_sent (handleRequest mockResponseForOperation select req) = Some 404 \<and>
   body_sent (handleRequest mockResponseForOperation select req) =
     JSON_stringify (JObj [(''error'', JStr ''Path not found in specification'')])"
  by (simp add: handleRequest_def notFound_def)

theorem not_found_fixed_message_witness:
  "(\<lambda>r. (H_notFound, \<lparr>operationId = None, validation_errors = []\<rparr>))
      \<lparr>req_method = ''GET'', originalUrl = ''/api/v3/company/42/invoice'', headers = [], body = None\<rparr>
     = (H_notFound, \<lparr>operationId = None, validation_errors = []\<rparr>) \<and>
   status_sent (handleRequest (\<lambda>i. None)
      (\<lambda>r. (H_notFound, \<lparr>operationId = None, validation_errors = []\<rparr>))
      \<lparr>req_method = ''GET'', originalUrl = ''/api/v3/company/42/invoice'', headers = [],
       body = None\<rparr>) = Some 404 \<and>
   str_includes (body_sent (handleRequest (\<lambda>i. None)
      (\<lambda>r. (H_notFound, \<lparr>operationId = None, validation_errors = []\<rparr>))
      \<lparr>req_method = ''GET'', originalUrl = ''/api/v3/company/42/invoice'', headers = [],
       body = None\<rparr>)) ''Path not found in specification''"
  using not_found_fixed_message
    [of "\<lambda>r. (H_notFound, \<lparr>operationId = None, validation_errors = []\<rparr>)"
        "\<lparr>req_method = ''GET'', originalUrl = ''/api/v3/company/42/invoice'', headers = [],
          body = None\<rparr>"
        "\<lparr>operationId = None, validation_errors = []\<rparr>" "\<lambda>i. None"]
  by (simp add: QuoteJSONString_def QuoteJSONChar_def)

text \<open>
  C7 as stated fails.  For the unmatched path \<^verbatim>\<open>/v3/company/42/invoice\<close> (requested as
  \<^verbatim>\<open>/api/v3/company/42/invoice\<close>) the status is 404, but the body does not contain the
  path.
\<close>

theorem not_found_body_omits_path:
  "status_sent (handleRequest (\<lambda>i. None)
      (\<lambda>r. (H_notFound, \<lparr>operationId = None, validation_errors = []\<rparr>))
      \<lparr>req_method = ''GET'', originalUrl = ''/api/v3/company/42/invoice'', headers = [],
       body = None\<rparr>) = Some 404 \<and>
   \<not> str_includes (body_sent (handleRequest (\<lambda>i. None)
      (\<lambda>r. (H_notFound, \<lparr>operationId = None, validation_errors = []\<rparr>))
      \<lparr>req_method = ''GET'', originalUrl = ''/api/v3/company/42/invoice'', headers = [],
       body = None\<rparr>)) ''/v3/company/42/invoice''"
  by (simp add: handleRequest_def notFound_def QuoteJSONString_def QuoteJSONChar_def)









subsection \<open>Further properties of the callbacks\<close>

text \<open>
  Outside capture mode the \<^verbatim>\<open>proxyRes\<close> callback records nothing: unless the caller's
  response is closed it writes the upstream status (500 when that is falsy) and headers
  and pipes the upstream body; it never appends to the capture file and never throws.
\<close>

theorem proxy_mode_records_nothing:
  "mode \<noteq> ''capture'' \<Longrightarrow>
   on_proxyRes mode p proxyRes req closed =
     ((if closed then []
       else [WriteHead (or_else (statusCode proxyRes) 500) (proxy_headers proxyRes),
             Pipe (chunks proxyRes)]),
      Returned) \<and>
   appended (fst (on_proxyRes mode p proxyRes req closed)) = []"
proof -
  assume other: "mode \<noteq> ''capture''"
  then have run: "on_proxyRes mode p proxyRes req closed =
     ((if closed then []
       else [WriteHead (or_else (statusCode proxyRes) 500) (proxy_headers proxyRes),
             Pipe (chunks proxyRes)]),
      Returned)"
    by (simp add: on_proxyRes_def)
  show ?thesis
    unfolding run by simp
qed

theorem proxy_mode_records_nothing_witness:
  "''proxy'' \<noteq> ''capture'' \<and>
   on_proxyRes ''proxy''
     \<lparr>now = ''2025-04-22T19:34:12.345Z'', writable = True, toString_utf8 = id\<rparr>
     \<lparr>statusCode = Some 200, proxy_headers = [(''content-type'', ''application/json'')],
      chunks = [''ok'']\<rparr>
     \<lparr>req_method = ''GET'', originalUrl = ''/api/v3/company/42/customer'', headers = [],
      body = None\<rparr> False =
     ([WriteHead 200 [(''content-type'', ''application/json'')], Pipe [''ok'']], Returned)"
  using proxy_mode_records_nothing
    [of "''proxy''"
        "\<lparr>now = ''2025-04-22T19:34:12.345Z'', writable = True, toString_utf8 = id\<rparr>"
        "\<lparr>statusCode = Some 200, proxy_headers = [(''content-type'', ''application/json'')],
          chunks = [''ok'']\<rparr>"
        "\<lparr>req_method = ''GET'', originalUrl = ''/api/v3/company/42/customer'', headers = [],
          body = None\<rparr>" False]
  by (simp add: or_else_def)

text \<open>
  Without a configured token (\<^verbatim>\<open>QBO_TOKEN\<close> unset or empty) the \<^verbatim>\<open>proxyReq\<close> callback
  leaves the upstream request as it is: no credential is injected, and a caller's own
  \<^verbatim>\<open>Authorization\<close> header goes upstream unchanged.
\<close>

theorem no_token_no_credential:
  "QBO_TOKEN = None \<or> QBO_TOKEN = Some [] \<Longrightarrow>
   on_proxyReq QBO_TOKEN proxyReq = (proxyReq, Returned)"
  by (auto simp: on_proxyReq_def)

theorem no_token_no_credential_witness:
  "(Some [] :: string option) = Some [] \<and>
   getHeader (fst (on_proxyReq (Some []) [''authorization'' \<mapsto> ''Bearer from-caller'']))
     ''Authorization'' = Some ''Bearer from-caller''"
  using no_token_no_credential [of "Some []" "[''authorization'' \<mapsto> ''Bearer from-caller'']"]
  by (simp add: getHeader_def toLowerChar_def)

text \<open>
  When the backend has no mock response for the operation, the \<^verbatim>\<open>mock\<close> handler
  answers with status 200 and the fixed body \<^verbatim>\<open>{"error":"Mock body not found"}\<close>; when the
  backend's object has both keys, the handler sends exactly that status and body.
\<close>

theorem mock_fallback:
  "(mockResponseForOperation (case operationId c of None \<Rightarrow> [] | Some i \<Rightarrow> i) = None \<longrightarrow>
      mock mockResponseForOperation c req =
        [SendJson 200 (JObj [(''error'', JStr ''Mock body not found'')])]) \<and>
   (mockResponseForOperation (case operationId c of None \<Rightarrow> [] | Some i \<Rightarrow> i)
      = Some \<lparr>mock_status = Some s, mock_body = Some b\<rparr> \<longrightarrow>
      mock mockResponseForOperation c req = [SendJson s b])"
  by (simp add: mock_def)

theorem mock_fallback_witness:
  "mock (\<lambda>i. if i = ''getCustomer''
            then Some \<lparr>mock_status = Some 200, mock_body = Some (JObj [(''Customer'', JArr [])])\<rparr>
            else None)
      \<lparr>operationId = Some ''getInvoice'', validation_errors = []\<rparr>
      \<lparr>req_method = ''GET'', originalUrl = ''/api/v3/company/42/invoice/7'', headers = [],
       body = None\<rparr>
     = [SendJson 200 (JObj [(''error'', JStr ''Mock body not found'')])] \<and>
   mock (\<lambda>i. if i = ''getCustomer''
            then Some \<lparr>mock_status = Some 200, mock_body = Some (JObj [(''Customer'', JArr [])])\<rparr>
            else None)
      \<lparr>operationId = Some ''getCustomer'', validation_errors = []\<rparr>
      \<lparr>req_method = ''GET'', originalUrl = ''/api/v3/company/42/customer'', headers = [],
       body = None\<rparr>
     = [SendJson 200 (JObj [(''Customer'', JArr [])])]"
  using
    mock_fallback
      [of "\<lambda>i. if i = ''getCustomer''
            then Some \<lparr>mock_status = Some 200, mock_body = Some (JObj [(''Customer'', JArr [])])\<rparr>
            else None"
          "\<lparr>operationId = Some ''getInvoice'', validation_errors = []\<rparr>"
          "\<lparr>req_method = ''GET'', originalUrl = ''/api/v3/company/42/invoice/7'', headers = [],
            body = None\<rparr>" 200 "JObj [(''Customer'', JArr [])]"]
    mock_fallback
      [of "\<lambda>i. if i = ''getCustomer''
            then Some \<lparr>mock_status = Some 200, mock_body = Some (JObj [(''Customer'', JArr [])])\<rparr>
            else None"
          "\<lparr>operationId = Some ''getCustomer'', validation_errors = []\<rparr>"
          "\<lparr>req_method = ''GET'', originalUrl = ''/api/v3/company/42/customer'', headers = [],
            body = None\<rparr>" 200 "JObj [(''Customer'', JArr [])]"]
  by simp

end
